theory Spec2Isabelle
  imports Complex_Main
begin

section \<open>The realization service: KPI aggregation and renewal alert\<close>

text \<open>
  A shallow embedding of \<open>process_realization\<close> from
  \<open>blueprint/infra/backend/services/realization/main.py\<close>.

  Numbers. The handler computes in Python \<open>float\<close>s, IEEE doubles whose arithmetic
  belongs to the runtime and not to this repository. The type of floats is therefore a
  type parameter \<open>'f\<close>, and the five operations the handler applies to floats are
  taken as a parameter \<open>ops\<close>: nothing is assumed about what they compute, so every
  theorem below holds of the doubles as they are, rounding, infinities and NaN included.
  What Python raises is kept exactly: \<open>int\<close> and \<open>float\<close> stay apart in the untyped
  part of the request, because subtracting an \<open>int\<close> from a \<open>float\<close> converts the
  \<open>int\<close> first, and that conversion raises \<open>OverflowError\<close> for an \<open>int\<close> beyond
  the range of a double.
\<close>

subsection \<open>Python values and errors\<close>

text \<open>
  \<open>valueCommit: Dict[str, Any]\<close> is not validated further, so its content is any
  value a JSON body decodes to. A dict with \<open>str\<close> keys is an association list, read
  with \<open>map_of\<close>.
\<close>

datatype 'f pyval =
    PyNone
  | PyBool bool
  | PyInt int
  | PyFloat 'f
  | PyStr string
  | PyList "'f pyval list"
  | PyDict "(string \<times> 'f pyval) list"

datatype py_error = TypeError | KeyError | AttributeError | ZeroDivisionError | OverflowError

datatype http_exception = HTTPException nat py_error

text \<open>\<open>for t in x\<close>: a list yields its elements, a dict its keys, a str its characters;
  \<open>None\<close>, \<open>bool\<close>, \<open>int\<close> and \<open>float\<close> are not iterable.\<close>

fun py_iter :: "'f pyval \<Rightarrow> py_error + 'f pyval list" where
  "py_iter (PyList xs) = Inr xs"
| "py_iter (PyDict kv) = Inr (map (\<lambda>p. PyStr (fst p)) kv)"
| "py_iter (PyStr s) = Inr (map (\<lambda>c. PyStr [c]) s)"
| "py_iter PyNone = Inl TypeError"
| "py_iter (PyBool b) = Inl TypeError"
| "py_iter (PyInt n) = Inl TypeError"
| "py_iter (PyFloat x) = Inl TypeError"

text \<open>\<open>t[k]\<close> with a \<open>str\<close> key \<open>k\<close>: \<open>KeyError\<close> on a dict without the key,
  \<open>TypeError\<close> on every other kind of value.\<close>

fun py_getitem :: "'f pyval \<Rightarrow> string \<Rightarrow> py_error + 'f pyval" where
  "py_getitem (PyDict kv) k = (case map_of kv k of None \<Rightarrow> Inl KeyError | Some v \<Rightarrow> Inr v)"
| "py_getitem PyNone k = Inl TypeError"
| "py_getitem (PyBool b) k = Inl TypeError"
| "py_getitem (PyInt n) k = Inl TypeError"
| "py_getitem (PyFloat x) k = Inl TypeError"
| "py_getitem (PyStr s) k = Inl TypeError"
| "py_getitem (PyList xs) k = Inl TypeError"

text \<open>\<open>x.get(k)\<close>: \<open>None\<close> for a missing key; only a dict has the method.\<close>

fun py_get :: "'f pyval \<Rightarrow> string \<Rightarrow> py_error + 'f pyval" where
  "py_get (PyDict kv) k = (case map_of kv k of None \<Rightarrow> Inr PyNone | Some v \<Rightarrow> Inr v)"
| "py_get PyNone k = Inl AttributeError"
| "py_get (PyBool b) k = Inl AttributeError"
| "py_get (PyInt n) k = Inl AttributeError"
| "py_get (PyFloat x) k = Inl AttributeError"
| "py_get (PyStr s) k = Inl AttributeError"
| "py_get (PyList xs) k = Inl AttributeError"

text \<open>A dict key must be hashable: lists and dicts are not.\<close>

fun hashable :: "'f pyval \<Rightarrow> bool" where
  "hashable (PyList xs) = False"
| "hashable (PyDict kv) = False"
| "hashable PyNone = True"
| "hashable (PyBool b) = True"
| "hashable (PyInt n) = True"
| "hashable (PyFloat x) = True"
| "hashable (PyStr s) = True"

subsection \<open>The runtime's float arithmetic\<close>

text \<open>
  The operations on doubles that the handler uses, each named after the Python
  expression it stands for:
  \<^item> \<open>fl_sum vs\<close> is \<open>sum(vs)\<close> for a list of floats;
  \<^item> \<open>fl_div_len x n\<close> is \<open>x / n\<close> for a float \<open>x\<close> and the positive \<open>int\<close> \<open>n\<close>
    that \<open>len\<close> returned;
  \<^item> \<open>fl_sub x y\<close> is \<open>x - y\<close> for two floats;
  \<^item> \<open>fl_of_int n\<close> is the double that an \<open>int\<close> within the range of the doubles
    converts to;
  \<^item> \<open>fl_lt_zero x\<close> is \<open>x < 0\<close>.
  None of them raises.
\<close>

record 'f float_arith =
  fl_sum :: "'f list \<Rightarrow> 'f"
  fl_div_len :: "'f \<Rightarrow> nat \<Rightarrow> 'f"
  fl_sub :: "'f \<Rightarrow> 'f \<Rightarrow> 'f"
  fl_of_int :: "int \<Rightarrow> 'f"
  fl_lt_zero :: "'f \<Rightarrow> bool"

text \<open>Converting an \<open>int\<close> to a \<open>float\<close> rounds to nearest, ties to even, and raises
  once the rounded value leaves the doubles, that is from \<open>2^1024 - 2^970\<close> on.\<close>

definition int_to_float :: "'f float_arith \<Rightarrow> int \<Rightarrow> py_error + 'f" where
  "int_to_float ops n =
     (if \<bar>n\<bar> \<ge> 2 ^ 1024 - 2 ^ 970 then Inl OverflowError else Inr (fl_of_int ops n))"

text \<open>\<open>actual - target\<close> with a \<open>float\<close> on the left. The right operand is converted
  to a \<open>float\<close> first; \<open>bool\<close> is a subclass of \<open>int\<close>, \<open>True\<close> being 1.\<close>

fun float_sub :: "'f float_arith \<Rightarrow> 'f \<Rightarrow> 'f pyval \<Rightarrow> py_error + 'f" where
  "float_sub ops a (PyFloat b) = Inr (fl_sub ops a b)"
| "float_sub ops a (PyInt n) =
     (case int_to_float ops n of Inl e \<Rightarrow> Inl e | Inr b \<Rightarrow> Inr (fl_sub ops a b))"
| "float_sub ops a (PyBool b) = Inr (fl_sub ops a (fl_of_int ops (if b then 1 else 0)))"
| "float_sub ops a PyNone = Inl TypeError"
| "float_sub ops a (PyStr s) = Inl TypeError"
| "float_sub ops a (PyList xs) = Inl TypeError"
| "float_sub ops a (PyDict kv) = Inl TypeError"

subsection \<open>Request and response models\<close>

record 'f Telemetry =
  kpiId :: string
  timestamp :: string
  sample_value :: 'f

record 'f RealizationRequest =
  valueCommit :: "(string \<times> 'f pyval) list"
  telemetryData :: "'f Telemetry list"

text \<open>One entry of \<open>results\<close>. The source builds a dict with these five keys; a
  \<open>None\<close> entry is \<open>PyNone\<close> for the two fields copied from the request and
  \<open>None\<close> for the computed variance.\<close>

record 'f KpiResult =
  r_kpiId :: string
  r_actualValue :: 'f
  r_targetValue :: "'f pyval"
  r_unit :: "'f pyval"
  r_variance :: "'f option"

record 'f Report =
  report_id :: string
  valueCommitId :: "'f pyval"
  generatedAt :: string
  results :: "'f KpiResult list"

text \<open>The alert dict has the key \<open>message\<close> only in the risk case.\<close>

record RenewalAlert =
  status :: string
  message :: "string option"

record 'f RealizationReport =
  realizationReport :: "'f Report"
  renewalAlert :: RenewalAlert

subsection \<open>The handler\<close>

text \<open>\<open>targets = {t['kpiId']: t for t in ...}\<close>: a later entry replaces an earlier
  one under the same key. Keys are compared with HOL equality; Python identifies a few
  numeric keys (\<open>1\<close>, \<open>1.0\<close>, \<open>True\<close>), which no lookup by a \<open>str\<close> can tell.\<close>

fun build_targets :: "'f pyval list \<Rightarrow> ('f pyval \<rightharpoonup> 'f pyval) \<Rightarrow> py_error + ('f pyval \<rightharpoonup> 'f pyval)" where
  "build_targets [] targets = Inr targets"
| "build_targets (t # ts) targets =
     (case py_getitem t ''kpiId'' of
        Inl e \<Rightarrow> Inl e
      | Inr k \<Rightarrow> if hashable k then build_targets ts (targets(k \<mapsto> t)) else Inl TypeError)"

text \<open>\<open>aggregates.setdefault(k, []).append(v)\<close> on an insertion-ordered dict: a new key
  goes to the end, a known key keeps its place and its list grows at the end.\<close>

fun setdefault_append :: "string \<Rightarrow> 'f \<Rightarrow> (string \<times> 'f list) list \<Rightarrow> (string \<times> 'f list) list" where
  "setdefault_append k v [] = [(k, [v])]"
| "setdefault_append k v (p # ps) =
     (if fst p = k then (fst p, snd p @ [v]) # ps else p # setdefault_append k v ps)"

fun group_loop :: "'f Telemetry list \<Rightarrow> (string \<times> 'f list) list \<Rightarrow> (string \<times> 'f list) list" where
  "group_loop [] aggregates = aggregates"
| "group_loop (t # ts) aggregates =
     group_loop ts (setdefault_append (kpiId t) (sample_value t) aggregates)"

text \<open>\<open>sum(values) / len(values)\<close>: the division raises when \<open>len\<close> is 0.\<close>

definition mean :: "'f float_arith \<Rightarrow> 'f list \<Rightarrow> py_error + 'f" where
  "mean ops values =
     (if length values = 0 then Inl ZeroDivisionError
      else Inr (fl_div_len ops (fl_sum ops values) (length values)))"

text \<open>\<open>targets.get(kpi_id, {})\<close>.\<close>

definition targets_get :: "('f pyval \<rightharpoonup> 'f pyval) \<Rightarrow> string \<Rightarrow> 'f pyval" where
  "targets_get targets kpi_id =
     (case targets (PyStr kpi_id) of None \<Rightarrow> PyDict [] | Some t \<Rightarrow> t)"

text \<open>The body of the second loop, for one group: it returns the appended result and
  the new value of \<open>renewal_flag\<close>.\<close>

definition kpi_step ::
  "'f float_arith \<Rightarrow> ('f pyval \<rightharpoonup> 'f pyval) \<Rightarrow> string \<times> 'f list \<Rightarrow> bool
     \<Rightarrow> py_error + ('f KpiResult \<times> bool)" where
  "kpi_step ops targets g renewal_flag =
     (case mean ops (snd g) of
        Inl e \<Rightarrow> Inl e
      | Inr actual \<Rightarrow>
     (case py_get (targets_get targets (fst g)) ''targetValue'' of
        Inl e \<Rightarrow> Inl e
      | Inr target \<Rightarrow>
     (case py_get (targets_get targets (fst g)) ''unit'' of
        Inl e \<Rightarrow> Inl e
      | Inr unit \<Rightarrow>
        if target \<noteq> PyNone then
          (case float_sub ops actual target of
             Inl e \<Rightarrow> Inl e
           | Inr variance \<Rightarrow>
               Inr (\<lparr>r_kpiId = fst g, r_actualValue = actual, r_targetValue = target,
                     r_unit = unit, r_variance = Some variance\<rparr>,
                    (if fl_lt_zero ops variance then True else renewal_flag)))
        else
          Inr (\<lparr>r_kpiId = fst g, r_actualValue = actual, r_targetValue = target,
                r_unit = unit, r_variance = None\<rparr>,
               renewal_flag))))"

fun results_loop ::
  "'f float_arith \<Rightarrow> ('f pyval \<rightharpoonup> 'f pyval) \<Rightarrow> (string \<times> 'f list) list
     \<Rightarrow> 'f KpiResult list \<Rightarrow> bool \<Rightarrow> py_error + ('f KpiResult list \<times> bool)" where
  "results_loop ops targets [] res renewal_flag = Inr (res, renewal_flag)"
| "results_loop ops targets (g # gs) res renewal_flag =
     (case kpi_step ops targets g renewal_flag of
        Inl e \<Rightarrow> Inl e
      | Inr (r, flag) \<Rightarrow> results_loop ops targets gs (res @ [r]) flag)"

text \<open>\<open>data.valueCommit.get(k, default)\<close> on the request's dict.\<close>

definition commit_get :: "(string \<times> 'f pyval) list \<Rightarrow> string \<Rightarrow> 'f pyval \<Rightarrow> 'f pyval" where
  "commit_get vc k dflt = (case map_of vc k of None \<Rightarrow> dflt | Some v \<Rightarrow> v)"

definition make_alert :: "bool \<Rightarrow> RenewalAlert" where
  "make_alert renewal_flag =
     (if renewal_flag
      then \<lparr>status = ''risk'',
            message = Some ''Value delivery below target for one or more KPIs''\<rparr>
      else \<lparr>status = ''ok'', message = None\<rparr>)"

text \<open>The \<open>try\<close> block.\<close>

definition realization_body ::
  "'f float_arith \<Rightarrow> 'f RealizationRequest \<Rightarrow> py_error + 'f RealizationReport" where
  "realization_body ops data =
     (case py_iter (commit_get (valueCommit data) ''kpiTargets'' (PyList [])) of
        Inl e \<Rightarrow> Inl e
      | Inr ts \<Rightarrow>
     (case build_targets ts Map.empty of
        Inl e \<Rightarrow> Inl e
      | Inr targets \<Rightarrow>
     (case results_loop ops targets (group_loop (telemetryData data) []) [] False of
        Inl e \<Rightarrow> Inl e
      | Inr (res, renewal_flag) \<Rightarrow>
          Inr \<lparr>realizationReport =
                 \<lparr>report_id = ''auto-generated'',
                  valueCommitId = commit_get (valueCommit data) ''id'' PyNone,
                  generatedAt = ''2025-11-17T00:00:00Z'',
                  results = res\<rparr>,
               renewalAlert = make_alert renewal_flag\<rparr>)))"

text \<open>\<open>except Exception as e: raise HTTPException(status_code=500, detail=str(e))\<close>.\<close>

definition process_realization ::
  "'f float_arith \<Rightarrow> 'f RealizationRequest \<Rightarrow> http_exception + 'f RealizationReport" where
  "process_realization ops data =
     (case realization_body ops data of
        Inl e \<Rightarrow> Inl (HTTPException 500 e)
      | Inr r \<Rightarrow> Inr r)"

text \<open>The handler reads no clock. A call made when the clock shows \<open>now\<close> is the
  same computation on the request alone.\<close>

definition process_realization_at ::
  "string \<Rightarrow> 'f float_arith \<Rightarrow> 'f RealizationRequest
     \<Rightarrow> http_exception + 'f RealizationReport" where
  "process_realization_at now ops data = process_realization ops data"

subsection \<open>Notions the properties are stated with\<close>

text \<open>Each distinct element once, in the order of first occurrence.\<close>

fun first_seen :: "'a list \<Rightarrow> 'a list" where
  "first_seen [] = []"
| "first_seen (x # xs) = x # removeAll x (first_seen xs)"

text \<open>The values of all samples of one KPI, in arrival order, duplicates kept.\<close>

definition group_values :: "'f RealizationRequest \<Rightarrow> string \<Rightarrow> 'f list" where
  "group_values data k = map sample_value (filter (\<lambda>t. kpiId t = k) (telemetryData data))"

text \<open>The entries of \<open>kpiTargets\<close> the handler iterates over, and whether one of them
  is a target for the KPI \<open>k\<close>.\<close>

definition kpiTargets :: "'f RealizationRequest \<Rightarrow> 'f pyval list" where
  "kpiTargets data =
     (case py_iter (commit_get (valueCommit data) ''kpiTargets'' (PyList [])) of
        Inl e \<Rightarrow> []
      | Inr ts \<Rightarrow> ts)"

definition has_target :: "'f RealizationRequest \<Rightarrow> string \<Rightarrow> bool" where
  "has_target data k = list_ex (\<lambda>t. py_getitem t ''kpiId'' = Inr (PyStr k)) (kpiTargets data)"

text \<open>A result that signals under-delivery.\<close>

definition below_target :: "'f float_arith \<Rightarrow> 'f KpiResult \<Rightarrow> bool" where
  "below_target ops r = (case r_variance r of None \<Rightarrow> False | Some v \<Rightarrow> fl_lt_zero ops v)"

text \<open>Well-typed input. The source declares \<open>Target\<close> with \<open>kpiId: str\<close>,
  \<open>targetValue: float\<close> and \<open>unit: str\<close>; a \<open>float\<close> field takes a float, or an
  \<open>int\<close> that converts to one. A well-typed value commit has a list of such targets
  under \<open>kpiTargets\<close> (or no such key: the handler then takes the empty list).\<close>

fun wt_number :: "'f pyval \<Rightarrow> bool" where
  "wt_number (PyFloat x) = True"
| "wt_number (PyInt n) = (\<bar>n\<bar> < 2 ^ 1024 - 2 ^ 970)"
| "wt_number PyNone = False"
| "wt_number (PyBool b) = False"
| "wt_number (PyStr s) = False"
| "wt_number (PyList xs) = False"
| "wt_number (PyDict kv) = False"

fun is_str :: "'f pyval \<Rightarrow> bool" where
  "is_str (PyStr s) = True"
| "is_str PyNone = False"
| "is_str (PyBool b) = False"
| "is_str (PyInt n) = False"
| "is_str (PyFloat x) = False"
| "is_str (PyList xs) = False"
| "is_str (PyDict kv) = False"

fun wt_target :: "'f pyval \<Rightarrow> bool" where
  "wt_target (PyDict kv) =
     ((case map_of kv ''kpiId'' of None \<Rightarrow> False | Some k \<Rightarrow> is_str k) \<and>
      (case map_of kv ''targetValue'' of None \<Rightarrow> False | Some v \<Rightarrow> wt_number v) \<and>
      (case map_of kv ''unit'' of None \<Rightarrow> False | Some u \<Rightarrow> is_str u))"
| "wt_target PyNone = False"
| "wt_target (PyBool b) = False"
| "wt_target (PyInt n) = False"
| "wt_target (PyFloat x) = False"
| "wt_target (PyStr s) = False"
| "wt_target (PyList xs) = False"

fun is_target_list :: "'f pyval \<Rightarrow> bool" where
  "is_target_list (PyList ts) = list_all wt_target ts"
| "is_target_list PyNone = False"
| "is_target_list (PyBool b) = False"
| "is_target_list (PyInt n) = False"
| "is_target_list (PyFloat x) = False"
| "is_target_list (PyStr s) = False"
| "is_target_list (PyDict kv) = False"

definition wt_request :: "'f RealizationRequest \<Rightarrow> bool" where
  "wt_request data =
     (case map_of (valueCommit data) ''kpiTargets'' of
        None \<Rightarrow> True
      | Some ts \<Rightarrow> is_target_list ts)"

subsection \<open>Example requests\<close>

text \<open>To run examples the parameter needs a value. \<open>exact_arith\<close> computes in the
  reals without rounding. Every float that occurs in the example runs below is an
  integer of at most five digits, and on those the doubles compute the same values.\<close>

definition exact_arith :: "real float_arith" where
  "exact_arith =
     \<lparr>fl_sum = sum_list,
      fl_div_len = (\<lambda>x n. x / real n),
      fl_sub = (\<lambda>x y. x - y),
      fl_of_int = real_of_int,
      fl_lt_zero = (\<lambda>x. x < 0)\<rparr>"

definition target_entry :: "string \<Rightarrow> 'f pyval \<Rightarrow> string \<Rightarrow> 'f pyval" where
  "target_entry k v u =
     PyDict [(''kpiId'', PyStr k), (''targetValue'', v), (''unit'', PyStr u)]"

definition sample :: "string \<Rightarrow> string \<Rightarrow> 'f \<Rightarrow> 'f Telemetry" where
  "sample k ts v = \<lparr>kpiId = k, timestamp = ts, sample_value = v\<rparr>"

text \<open>Two targets for \<open>time-saved\<close>, a target without telemetry, telemetry without a
  target, and a repeated sample.\<close>

definition demo_request :: "real RealizationRequest" where
  "demo_request =
     \<lparr>valueCommit =
        [(''id'', PyStr ''vc-1''),
         (''kpiTargets'', PyList
            [target_entry ''revenue'' (PyInt 50000) ''usd'',
             target_entry ''time-saved'' (PyFloat 25) ''hours'',
             target_entry ''time-saved'' (PyInt 15) ''percent'',
             target_entry ''adoption'' (PyFloat 80) ''percent''])],
      telemetryData =
        [sample ''time-saved'' ''2025-01-01'' 10,
         sample ''revenue'' ''2025-01-01'' 30000,
         sample ''time-saved'' ''2025-01-02'' 20,
         sample ''latency'' ''2025-01-02'' 7,
         sample ''revenue'' ''2025-01-01'' 30000]\<rparr>"

definition demo_response :: "real RealizationReport" where
  "demo_response =
     \<lparr>realizationReport =
        \<lparr>report_id = ''auto-generated'',
         valueCommitId = PyStr ''vc-1'',
         generatedAt = ''2025-11-17T00:00:00Z'',
         results =
           [\<lparr>r_kpiId = ''time-saved'', r_actualValue = 15, r_targetValue = PyInt 15,
             r_unit = PyStr ''percent'', r_variance = Some 0\<rparr>,
            \<lparr>r_kpiId = ''revenue'', r_actualValue = 30000, r_targetValue = PyInt 50000,
             r_unit = PyStr ''usd'', r_variance = Some (- 20000)\<rparr>,
            \<lparr>r_kpiId = ''latency'', r_actualValue = 7, r_targetValue = PyNone,
             r_unit = PyNone, r_variance = None\<rparr>]\<rparr>,
      renewalAlert =
        \<lparr>status = ''risk'',
         message = Some ''Value delivery below target for one or more KPIs''\<rparr>\<rparr>"

text \<open>The same telemetry and targets under another commit \<open>id\<close>, keys in another
  order.\<close>

definition later_request :: "real RealizationRequest" where
  "later_request =
     \<lparr>valueCommit =
        [(''kpiTargets'', PyList
            [target_entry ''revenue'' (PyInt 50000) ''usd'',
             target_entry ''time-saved'' (PyFloat 25) ''hours'',
             target_entry ''time-saved'' (PyInt 15) ''percent'',
             target_entry ''adoption'' (PyFloat 80) ''percent'']),
         (''id'', PyStr ''vc-7'')],
      telemetryData = telemetryData demo_request\<rparr>"

text \<open>The same value commit with no telemetry at all.\<close>

definition empty_request :: "real RealizationRequest" where
  "empty_request = demo_request\<lparr>telemetryData := []\<rparr>"

definition empty_response :: "real RealizationReport" where
  "empty_response =
     \<lparr>realizationReport =
        \<lparr>report_id = ''auto-generated'',
         valueCommitId = PyStr ''vc-1'',
         generatedAt = ''2025-11-17T00:00:00Z'',
         results = []\<rparr>,
      renewalAlert = \<lparr>status = ''ok'', message = None\<rparr>\<rparr>"

text \<open>A target given as an \<open>int\<close> that no double can hold.\<close>

definition huge_target_request :: "real RealizationRequest" where
  "huge_target_request =
     \<lparr>valueCommit =
        [(''id'', PyStr ''vc-2''),
         (''kpiTargets'', PyList [target_entry ''revenue'' (PyInt (2 ^ 1024)) ''usd''])],
      telemetryData = [sample ''revenue'' ''2025-01-01'' 30000]\<rparr>"

lemmas example_defs =
  demo_request_def demo_response_def empty_request_def empty_response_def
  target_entry_def sample_def exact_arith_def

lemmas handler_defs =
  process_realization_def realization_body_def commit_get_def kpi_step_def mean_def
  targets_get_def int_to_float_def make_alert_def

section \<open>The examples, evaluated\<close>

lemma demo_run: "process_realization exact_arith demo_request = Inr demo_response"
  by (simp add: example_defs handler_defs)

lemma empty_run: "process_realization exact_arith empty_request = Inr empty_response"
  by (simp add: example_defs handler_defs)

text \<open>Outside the well-typed requests the handler can fail: the conversion of the
  target to a \<open>float\<close> raises, and the caller gets HTTP 500.\<close>

lemma huge_target_run:
  "\<not> wt_request huge_target_request \<and>
   process_realization exact_arith huge_target_request = Inl (HTTPException 500 OverflowError)"
  by (simp add: huge_target_request_def wt_request_def target_entry_def sample_def handler_defs)

section \<open>Grouping the telemetry\<close>

lemma set_first_seen: "set (first_seen xs) = set xs"
  by (induction xs) auto

lemma distinct_first_seen: "distinct (first_seen xs)"
  by (induction xs) (auto simp: distinct_removeAll)

lemma setdefault_append_keys:
  "map fst (setdefault_append k v a) =
     (if k \<in> set (map fst a) then map fst a else map fst a @ [k])"
  by (induction a) auto

lemma setdefault_append_map_of:
  "map_of (setdefault_append k v a) =
     (map_of a)(k \<mapsto> (case map_of a k of None \<Rightarrow> [] | Some vs \<Rightarrow> vs) @ [v])"
  by (induction a) (auto simp: fun_eq_iff)

lemma filter_notin_removeAll:
  "x \<in> A \<Longrightarrow> filter (\<lambda>k. k \<notin> A) (removeAll x ys) = filter (\<lambda>k. k \<notin> A) ys"
  by (induction ys) auto

lemma filter_notin_insert:
  "filter (\<lambda>k. k \<noteq> x \<and> k \<notin> A) ys = filter (\<lambda>k. k \<notin> A) (removeAll x ys)"
  by (induction ys) auto

text \<open>The keys of the dict after the first loop: the old keys, then the new ones in
  first-seen order.\<close>

lemma group_loop_keys:
  "map fst (group_loop ts a) =
     map fst a @ filter (\<lambda>k. k \<notin> set (map fst a)) (first_seen (map kpiId ts))"
proof (induction ts arbitrary: a)
  case Nil
  then show ?case by simp
next
  case (Cons t ts)
  show ?case
  proof (cases "kpiId t \<in> set (map fst a)")
    case True
    then show ?thesis
      using Cons.IH [of "setdefault_append (kpiId t) (sample_value t) a"]
      by (simp add: setdefault_append_keys filter_notin_removeAll del: set_map)
  next
    case False
    then show ?thesis
      using Cons.IH [of "setdefault_append (kpiId t) (sample_value t) a"]
      by (simp add: setdefault_append_keys filter_notin_insert del: set_map)
  qed
qed

text \<open>The list stored under a key: what was there, then the key's samples in order.\<close>

lemma group_loop_map_of:
  "map_of (group_loop ts a) k =
     (if k \<in> set (map fst a) \<or> k \<in> kpiId ` set ts
      then Some ((case map_of a k of None \<Rightarrow> [] | Some vs \<Rightarrow> vs)
                 @ map sample_value (filter (\<lambda>t. kpiId t = k) ts))
      else None)"
proof (induction ts arbitrary: a)
  case Nil
  then show ?case by (auto simp: map_of_eq_None_iff split: option.splits)
next
  case (Cons t ts)
  show ?case
    unfolding group_loop.simps Cons.IH
    by (auto simp: setdefault_append_keys setdefault_append_map_of map_of_eq_None_iff
        image_iff split: option.splits)
qed

section \<open>The dict of targets\<close>

lemma build_targets_append:
  "build_targets (xs @ ys) m =
     (case build_targets xs m of Inl e \<Rightarrow> Inl e | Inr m1 \<Rightarrow> build_targets ys m1)"
  by (induction xs arbitrary: m) (auto split: sum.splits)

lemma build_targets_miss:
  "build_targets ts m = Inr m' \<Longrightarrow> \<forall>t\<in>set ts. py_getitem t ''kpiId'' \<noteq> Inr key
     \<Longrightarrow> m' key = m key"
  by (induction ts arbitrary: m) (auto split: sum.splits if_splits)

lemma build_targets_last:
  assumes "build_targets (pre @ t # post) m = Inr m'"
    and "py_getitem t ''kpiId'' = Inr key"
    and "\<forall>u\<in>set post. py_getitem u ''kpiId'' \<noteq> Inr key"
  shows "m' key = Some t"
proof -
  from assms(1) obtain m1 where m1: "build_targets pre m = Inr m1"
    and rest: "build_targets (t # post) m1 = Inr m'"
    by (auto simp: build_targets_append split: sum.splits)
  from rest assms(2) have "build_targets post (m1(key \<mapsto> t)) = Inr m'"
    by (auto split: if_splits)
  from build_targets_miss [OF this assms(3)] show ?thesis by simp
qed

lemma build_targets_invariant:
  "build_targets ts m = Inr m' \<Longrightarrow> \<forall>k t. m k = Some t \<longrightarrow> P t \<Longrightarrow> \<forall>t\<in>set ts. P t \<Longrightarrow>
     m' key = Some t \<Longrightarrow> P t"
proof (induction ts arbitrary: m)
  case Nil
  then show ?case by simp
next
  case (Cons a ts)
  from Cons.prems(1) obtain k where k: "py_getitem a ''kpiId'' = Inr k" "hashable k"
    and rest: "build_targets ts (m(k \<mapsto> a)) = Inr m'"
    by (auto split: sum.splits if_splits)
  have "\<forall>k' t. (m(k \<mapsto> a)) k' = Some t \<longrightarrow> P t"
    using Cons.prems(2,3) by auto
  from Cons.IH [OF rest this _ Cons.prems(4)] Cons.prems(3) show ?case by simp
qed

section \<open>The second loop and the response\<close>

lemma kpi_step_kpiId: "kpi_step ops T g f = Inr (r, f') \<Longrightarrow> r_kpiId r = fst g"
  by (auto simp: kpi_step_def split: sum.splits if_splits)

lemma kpi_step_actual: "kpi_step ops T g f = Inr (r, f') \<Longrightarrow> mean ops (snd g) = Inr (r_actualValue r)"
  by (auto simp: kpi_step_def split: sum.splits if_splits)

lemma kpi_step_flag: "kpi_step ops T g f = Inr (r, f') \<Longrightarrow> f' = (f \<or> below_target ops r)"
  by (auto simp: kpi_step_def below_target_def split: sum.splits if_splits)

lemma kpi_step_target:
  "kpi_step ops T g f = Inr (r, f') \<Longrightarrow>
     py_get (targets_get T (fst g)) ''targetValue'' = Inr (r_targetValue r) \<and>
     py_get (targets_get T (fst g)) ''unit'' = Inr (r_unit r)"
  by (auto simp: kpi_step_def split: sum.splits if_splits)

lemma kpi_step_variance:
  "kpi_step ops T g f = Inr (r, f') \<Longrightarrow>
     (case r_variance r of
        None \<Rightarrow> r_targetValue r = PyNone
      | Some v \<Rightarrow> r_targetValue r \<noteq> PyNone \<and> float_sub ops (r_actualValue r) (r_targetValue r) = Inr v)"
  by (auto simp: kpi_step_def split: sum.splits if_splits)

lemma results_loop_char:
  "results_loop ops T gs res f = Inr (res', f') \<Longrightarrow>
     \<exists>rs. res' = res @ rs \<and> map r_kpiId rs = map fst gs \<and>
          f' = (f \<or> list_ex (below_target ops) rs) \<and>
          (\<forall>r\<in>set rs. \<exists>g\<in>set gs. \<exists>f0 f1. kpi_step ops T g f0 = Inr (r, f1))"
proof (induction gs arbitrary: res f)
  case Nil
  then show ?case by simp
next
  case (Cons g gs)
  from Cons.prems obtain r f1 where step: "kpi_step ops T g f = Inr (r, f1)"
    and rest: "results_loop ops T gs (res @ [r]) f1 = Inr (res', f')"
    by (auto split: sum.splits)
  from Cons.IH [OF rest] obtain rs where rs: "res' = (res @ [r]) @ rs"
    "map r_kpiId rs = map fst gs" "f' = (f1 \<or> list_ex (below_target ops) rs)"
    "\<forall>r\<in>set rs. \<exists>g\<in>set gs. \<exists>f0 f1. kpi_step ops T g f0 = Inr (r, f1)"
    by blast
  have "res' = res @ (r # rs)" using rs(1) by simp
  moreover have "map r_kpiId (r # rs) = map fst (g # gs)"
    using rs(2) kpi_step_kpiId [OF step] by simp
  moreover have "f' = (f \<or> list_ex (below_target ops) (r # rs))"
    using rs(3) kpi_step_flag [OF step] by auto
  moreover have "\<forall>r'\<in>set (r # rs). \<exists>g'\<in>set (g # gs). \<exists>f0 f1. kpi_step ops T g' f0 = Inr (r', f1)"
    using rs(4) step by auto
  ultimately show ?case by blast
qed

lemma process_realization_cases:
  assumes "process_realization ops d = Inr rep"
  obtains ts T fl where
    "py_iter (commit_get (valueCommit d) ''kpiTargets'' (PyList [])) = Inr ts"
    "build_targets ts Map.empty = Inr T"
    "results_loop ops T (group_loop (telemetryData d) []) [] False
       = Inr (results (realizationReport rep), fl)"
    "renewalAlert rep = make_alert fl"
    "report_id (realizationReport rep) = ''auto-generated''"
    "generatedAt (realizationReport rep) = ''2025-11-17T00:00:00Z''"
  using assms
  by (auto simp: process_realization_def realization_body_def split: sum.splits)

lemma group_member:
  assumes "g \<in> set (group_loop tel [])"
  shows "fst g \<in> kpiId ` set tel \<and> snd g = map sample_value (filter (\<lambda>t. kpiId t = fst g) tel)"
proof -
  have "distinct (map fst (group_loop tel []))"
    by (simp add: group_loop_keys distinct_first_seen)
  with assms have "map_of (group_loop tel []) (fst g) = Some (snd g)"
    by simp
  then show ?thesis
    by (simp add: group_loop_map_of split: if_splits)
qed

lemma alert_status: "status (make_alert fl) = ''risk'' \<longleftrightarrow> fl"
  by (simp add: make_alert_def)

lemma alert_message:
  "message (make_alert fl) =
     (if fl then Some ''Value delivery below target for one or more KPIs'' else None)"
  by (simp add: make_alert_def)

lemma alert_status_ok: "status (make_alert fl) = ''ok'' \<longleftrightarrow> \<not> fl"
  by (simp add: make_alert_def)

lemma results_flag:
  assumes "results_loop ops T gs [] False = Inr (res, fl)"
  shows "fl = list_ex (below_target ops) res"
  using results_loop_char [OF assms] by auto

lemma results_keys:
  assumes "results_loop ops T gs [] f = Inr (res, fl)"
  shows "map r_kpiId res = map fst gs"
  using results_loop_char [OF assms] by auto

lemma results_steps:
  assumes "results_loop ops T gs [] f = Inr (res, fl)" and "r \<in> set res"
  shows "\<exists>g\<in>set gs. \<exists>f0 f1. kpi_step ops T g f0 = Inr (r, f1)"
  using results_loop_char [OF assms(1)] assms(2) by auto

lemma remdups_snoc: "remdups (ys @ [x]) = removeAll x (remdups ys) @ [x]"
  by (induction ys) auto

lemma rev_removeAll_swap: "rev (removeAll x ys) = removeAll x (rev ys)"
  by (simp add: removeAll_filter_not_eq rev_filter)

lemma first_seen_remdups: "first_seen xs = rev (remdups (rev xs))"
  by (induction xs) (simp_all add: remdups_snoc rev_removeAll_swap)

lemma result_keys_first_seen:
  assumes "process_realization ops d = Inr rep"
  shows "map r_kpiId (results (realizationReport rep)) = first_seen (map kpiId (telemetryData d))"
proof -
  from assms obtain T fl where
    loop: "results_loop ops T (group_loop (telemetryData d) []) [] False
             = Inr (results (realizationReport rep), fl)"
    by (rule process_realization_cases)
  from results_keys [OF loop] show ?thesis
    by (simp add: group_loop_keys)
qed

lemma kpiTargets_iter:
  "py_iter (commit_get (valueCommit d) ''kpiTargets'' (PyList [])) = Inr ts \<Longrightarrow> kpiTargets d = ts"
  by (simp add: kpiTargets_def)

lemma result_lookup:
  assumes "process_realization ops d = Inr rep"
    and "r \<in> set (results (realizationReport rep))"
  obtains T g f0 f1 where
    "build_targets (kpiTargets d) Map.empty = Inr T"
    "g \<in> set (group_loop (telemetryData d) [])"
    "kpi_step ops T g f0 = Inr (r, f1)"
proof -
  from assms(1) obtain ts T fl where
    it: "py_iter (commit_get (valueCommit d) ''kpiTargets'' (PyList [])) = Inr ts"
    and bt: "build_targets ts Map.empty = Inr T"
    and loop: "results_loop ops T (group_loop (telemetryData d) []) [] False
             = Inr (results (realizationReport rep), fl)"
    by (rule process_realization_cases)
  from results_steps [OF loop assms(2)] obtain g f0 f1 where
    "g \<in> set (group_loop (telemetryData d) [])" "kpi_step ops T g f0 = Inr (r, f1)"
    by blast
  with bt kpiTargets_iter [OF it] that show ?thesis by blast
qed

lemma unmatched_result:
  assumes "process_realization ops d = Inr rep"
    and "r \<in> set (results (realizationReport rep))"
    and "\<not> has_target d (r_kpiId r)"
  shows "r_variance r = None \<and> r_targetValue r = PyNone \<and> r_unit r = PyNone"
proof -
  from assms(1,2) obtain T g f0 f1 where
    bt: "build_targets (kpiTargets d) Map.empty = Inr T"
    and step: "kpi_step ops T g f0 = Inr (r, f1)"
    by (rule result_lookup)
  have "\<forall>t\<in>set (kpiTargets d). py_getitem t ''kpiId'' \<noteq> Inr (PyStr (r_kpiId r))"
    using assms(3) by (simp add: has_target_def list_ex_iff)
  from build_targets_miss [OF bt this] have "T (PyStr (r_kpiId r)) = None"
    by simp
  then have "targets_get T (fst g) = PyDict []"
    by (simp add: targets_get_def kpi_step_kpiId [OF step, symmetric])
  with kpi_step_target [OF step] have tu: "r_targetValue r = PyNone" "r_unit r = PyNone"
    by simp_all
  with kpi_step_variance [OF step] have "r_variance r = None"
    by (cases "r_variance r") simp_all
  with tu show ?thesis by simp
qed

section \<open>Totality on well-typed requests\<close>

lemma group_nonempty:
  assumes "g \<in> set (group_loop tel [])"
  shows "snd g \<noteq> []"
proof -
  from group_member [OF assms] obtain t where "t \<in> set tel" "kpiId t = fst g"
    and "snd g = map sample_value (filter (\<lambda>t. kpiId t = fst g) tel)"
    by auto
  then show ?thesis by (auto simp: filter_empty_conv)
qed

lemma wt_target_getitem:
  "wt_target t \<Longrightarrow> \<exists>k. py_getitem t ''kpiId'' = Inr k \<and> hashable k"
proof (cases t)
  case (PyDict kv)
  assume "wt_target t"
  with PyDict obtain k where "map_of kv ''kpiId'' = Some k" "is_str k"
    by (auto split: option.splits)
  then show ?thesis using PyDict by (cases k) auto
qed auto

lemma build_targets_total:
  "list_all wt_target ts \<Longrightarrow> \<exists>m'. build_targets ts m = Inr m'"
proof (induction ts arbitrary: m)
  case Nil
  then show ?case by simp
next
  case (Cons t ts)
  then obtain k where "py_getitem t ''kpiId'' = Inr k" "hashable k"
    using wt_target_getitem [of t] by auto
  with Cons show ?case by simp
qed

lemma float_sub_wt: "wt_number v \<Longrightarrow> \<exists>x. float_sub ops a v = Inr x"
  by (cases v) (auto simp: int_to_float_def)

lemma wt_number_not_None: "wt_number v \<Longrightarrow> v \<noteq> PyNone"
  by (cases v) auto

lemma kpi_step_total:
  assumes "snd g \<noteq> []"
    and "\<forall>t. T (PyStr (fst g)) = Some t \<longrightarrow> wt_target t"
  shows "\<exists>r f'. kpi_step ops T g f = Inr (r, f')"
proof -
  from assms(1) obtain a where a: "mean ops (snd g) = Inr a"
    by (auto simp: mean_def)
  show ?thesis
  proof (cases "T (PyStr (fst g))")
    case None
    then show ?thesis
      by (simp add: kpi_step_def a targets_get_def)
  next
    case (Some t)
    with assms(2) have wt: "wt_target t" by simp
    then obtain kv where t: "t = PyDict kv" by (cases t) auto
    from wt t obtain v u where v: "map_of kv ''targetValue'' = Some v" "wt_number v"
      and u: "map_of kv ''unit'' = Some u"
      by (auto split: option.splits)
    from float_sub_wt [OF v(2)] obtain x where "float_sub ops a v = Inr x" by blast
    with v u wt_number_not_None [OF v(2)] show ?thesis
      by (simp add: kpi_step_def a targets_get_def Some t)
  qed
qed

lemma results_loop_total:
  assumes "\<forall>g\<in>set gs. snd g \<noteq> []"
    and "\<forall>k t. T k = Some t \<longrightarrow> wt_target t"
  shows "\<exists>res' f'. results_loop ops T gs res f = Inr (res', f')"
  using assms(1)
proof (induction gs arbitrary: res f)
  case Nil
  then show ?case by simp
next
  case (Cons g gs)
  from kpi_step_total [of g T ops f] Cons.prems assms(2)
  obtain r f1 where "kpi_step ops T g f = Inr (r, f1)" by auto
  with Cons.IH [of "res @ [r]" f1] Cons.prems show ?case by simp
qed

lemma wt_request_iter:
  assumes "wt_request d"
  shows "list_all wt_target (kpiTargets d) \<and>
         py_iter (commit_get (valueCommit d) ''kpiTargets'' (PyList [])) = Inr (kpiTargets d)"
proof (cases "map_of (valueCommit d) ''kpiTargets''")
  case None
  then show ?thesis by (simp add: kpiTargets_def commit_get_def)
next
  case (Some v)
  with assms have "is_target_list v" by (simp add: wt_request_def)
  then show ?thesis using Some
    by (cases v) (simp_all add: kpiTargets_def commit_get_def)
qed

lemma wt_request_total:
  assumes "wt_request d"
  shows "\<exists>rep. process_realization ops d = Inr rep"
proof -
  from wt_request_iter [OF assms] have wt: "list_all wt_target (kpiTargets d)"
    and it: "py_iter (commit_get (valueCommit d) ''kpiTargets'' (PyList [])) = Inr (kpiTargets d)"
    by simp_all
  from build_targets_total [OF wt] obtain T where
    bt: "build_targets (kpiTargets d) Map.empty = Inr T" by blast
  have inv: "\<forall>k t. T k = Some t \<longrightarrow> wt_target t"
    using build_targets_invariant [OF bt, of wt_target] wt
    by (auto simp: list_all_iff)
  have "\<forall>g\<in>set (group_loop (telemetryData d) []). snd g \<noteq> []"
    using group_nonempty by blast
  from results_loop_total [OF this inv] obtain res fl where
    "results_loop ops T (group_loop (telemetryData d) []) [] False = Inr (res, fl)"
    by blast
  with it bt show ?thesis
    by (simp add: process_realization_def realization_body_def)
qed

text \<open>No error of the handler is ever a division by zero.\<close>

lemma kpi_step_no_zero_division:
  "kpi_step ops T g f = Inl ZeroDivisionError \<Longrightarrow> snd g = []"
proof -
  have gets: "\<And>x k. py_get x k \<noteq> Inl ZeroDivisionError"
    subgoal for x k by (cases x) (auto split: option.splits)
    done
  have sub: "\<And>a v. float_sub ops a v \<noteq> Inl ZeroDivisionError"
    subgoal for a v by (cases v) (auto simp: int_to_float_def)
    done
  assume "kpi_step ops T g f = Inl ZeroDivisionError"
  then have "mean ops (snd g) = Inl ZeroDivisionError"
    using gets sub
    by (auto simp: kpi_step_def split: sum.splits if_splits)
  then show ?thesis by (simp add: mean_def split: if_splits)
qed

lemma results_loop_no_zero_division:
  "results_loop ops T gs res f = Inl ZeroDivisionError \<Longrightarrow> \<exists>g\<in>set gs. snd g = []"
proof (induction gs arbitrary: res f)
  case Nil
  then show ?case by simp
next
  case (Cons g gs)
  then show ?case
    by (auto split: sum.splits dest: kpi_step_no_zero_division)
qed

lemma build_targets_no_zero_division:
  "build_targets ts m \<noteq> Inl ZeroDivisionError"
proof (induction ts arbitrary: m)
  case Nil
  then show ?case by simp
next
  case (Cons t ts)
  have "py_getitem t ''kpiId'' \<noteq> Inl ZeroDivisionError"
    by (cases t) (auto split: option.splits)
  with Cons show ?case by (auto split: sum.splits)
qed

lemma body_no_zero_division: "realization_body ops d \<noteq> Inl ZeroDivisionError"
proof
  assume a: "realization_body ops d = Inl ZeroDivisionError"
  have it: "\<And>x. py_iter x \<noteq> Inl ZeroDivisionError"
    subgoal for x by (cases x) auto
    done
  from a it build_targets_no_zero_division obtain T where
    "results_loop ops T (group_loop (telemetryData d) []) [] False = Inl ZeroDivisionError"
    by (auto simp: realization_body_def split: sum.splits)
  from results_loop_no_zero_division [OF this] group_nonempty show False by blast
qed

section \<open>What a result is computed from\<close>

text \<open>Each result is computed from exactly the samples of its KPI, in arrival order,
  duplicates kept, and there is at least one of them: its \<open>actualValue\<close> is what
  \<open>sum(values) / len(values)\<close> returns on that list.\<close>

lemma result_actual_value:
  assumes "process_realization ops d = Inr rep"
    and "r \<in> set (results (realizationReport rep))"
  shows "group_values d (r_kpiId r) \<noteq> [] \<and>
         r_actualValue r =
           fl_div_len ops (fl_sum ops (group_values d (r_kpiId r)))
             (length (group_values d (r_kpiId r)))"
proof -
  from assms obtain T g f0 f1 where
    g: "g \<in> set (group_loop (telemetryData d) [])"
    and step: "kpi_step ops T g f0 = Inr (r, f1)"
    by (rule result_lookup)
  have vals: "snd g = group_values d (r_kpiId r)"
    using group_member [OF g] kpi_step_kpiId [OF step] by (simp add: group_values_def)
  from kpi_step_actual [OF step]
  have m: "mean ops (group_values d (r_kpiId r)) = Inr (r_actualValue r)"
    by (simp add: vals)
  then show ?thesis
    by (auto simp: mean_def split: if_splits)
qed

section \<open>The claims\<close>

text \<open>
  C1. Whenever the handler returns, the alert's status is \<open>risk\<close> exactly when some
  emitted result has a variance below zero; a \<open>risk\<close> alert carries the fixed advisory
  message, and every other alert has status \<open>ok\<close> and no message.
\<close>

theorem alert_risk_iff_negative_variance:
  assumes "process_realization ops d = Inr rep"
  shows "(status (renewalAlert rep) = ''risk'' \<longleftrightarrow>
            (\<exists>r\<in>set (results (realizationReport rep)).
               \<exists>v. r_variance r = Some v \<and> fl_lt_zero ops v)) \<and>
         (status (renewalAlert rep) = ''risk'' \<longrightarrow>
            message (renewalAlert rep) =
              Some ''Value delivery below target for one or more KPIs'') \<and>
         (status (renewalAlert rep) \<noteq> ''risk'' \<longrightarrow>
            status (renewalAlert rep) = ''ok'' \<and> message (renewalAlert rep) = None)"
proof -
  from assms obtain T fl where
    loop: "results_loop ops T (group_loop (telemetryData d) []) [] False
             = Inr (results (realizationReport rep), fl)"
    and alert: "renewalAlert rep = make_alert fl"
    by (rule process_realization_cases)
  have "fl \<longleftrightarrow> (\<exists>r\<in>set (results (realizationReport rep)).
               \<exists>v. r_variance r = Some v \<and> fl_lt_zero ops v)"
    unfolding results_flag [OF loop] list_ex_iff below_target_def
    by (auto split: option.splits)
  then show ?thesis
    by (simp add: alert alert_status alert_message alert_status_ok)
qed

theorem alert_risk_iff_negative_variance_witness:
  "process_realization exact_arith demo_request = Inr demo_response \<and>
   status (renewalAlert demo_response) = ''risk'' \<and>
   (\<exists>r\<in>set (results (realizationReport demo_response)).
      \<exists>v. r_variance r = Some v \<and> fl_lt_zero exact_arith v) \<and>
   message (renewalAlert demo_response) =
     Some ''Value delivery below target for one or more KPIs'' \<and>
   process_realization exact_arith empty_request = Inr empty_response \<and>
   status (renewalAlert empty_response) = ''ok'' \<and>
   message (renewalAlert empty_response) = None"
proof -
  have risk: "status (renewalAlert demo_response) = ''risk''"
    by (simp add: example_defs)
  have ok: "status (renewalAlert empty_response) \<noteq> ''risk''"
    by (simp add: example_defs)
  from alert_risk_iff_negative_variance [OF demo_run] risk
    alert_risk_iff_negative_variance [OF empty_run] ok demo_run empty_run
  show ?thesis by blast
qed

text \<open>
  C3. Whenever the handler returns, a result whose KPI has no entry in \<open>kpiTargets\<close>
  has \<open>variance\<close>, \<open>targetValue\<close> and \<open>unit\<close> all \<open>None\<close>, not zero. Such a
  result is never what raises the alert: a \<open>risk\<close> status always comes with a result
  whose KPI does have a target and whose variance is negative.
\<close>

theorem unmatched_kpi_has_no_target_fields:
  assumes "process_realization ops d = Inr rep"
  shows "(\<forall>r\<in>set (results (realizationReport rep)).
            \<not> has_target d (r_kpiId r) \<longrightarrow>
              r_variance r = None \<and> r_targetValue r = PyNone \<and> r_unit r = PyNone \<and>
              \<not> below_target ops r) \<and>
         (status (renewalAlert rep) = ''risk'' \<longrightarrow>
            (\<exists>r\<in>set (results (realizationReport rep)).
               has_target d (r_kpiId r) \<and> below_target ops r))"
proof -
  have absent: "\<forall>r\<in>set (results (realizationReport rep)).
      \<not> has_target d (r_kpiId r) \<longrightarrow>
        r_variance r = None \<and> r_targetValue r = PyNone \<and> r_unit r = PyNone \<and>
        \<not> below_target ops r"
    using unmatched_result [OF assms] by (simp add: below_target_def)
  from assms obtain T fl where
    loop: "results_loop ops T (group_loop (telemetryData d) []) [] False
             = Inr (results (realizationReport rep), fl)"
    and alert: "renewalAlert rep = make_alert fl"
    by (rule process_realization_cases)
  have "status (renewalAlert rep) = ''risk'' \<longrightarrow>
      (\<exists>r\<in>set (results (realizationReport rep)). has_target d (r_kpiId r) \<and> below_target ops r)"
  proof
    assume "status (renewalAlert rep) = ''risk''"
    then have "list_ex (below_target ops) (results (realizationReport rep))"
      using results_flag [OF loop] by (simp add: alert alert_status)
    then obtain r where r: "r \<in> set (results (realizationReport rep))" "below_target ops r"
      by (auto simp: list_ex_iff)
    with absent have "has_target d (r_kpiId r)" by blast
    with r show "\<exists>r\<in>set (results (realizationReport rep)).
        has_target d (r_kpiId r) \<and> below_target ops r"
      by blast
  qed
  with absent show ?thesis by blast
qed

theorem unmatched_kpi_has_no_target_fields_witness:
  "process_realization exact_arith demo_request = Inr demo_response \<and>
   results (realizationReport demo_response) ! 2
     \<in> set (results (realizationReport demo_response)) \<and>
   r_kpiId (results (realizationReport demo_response) ! 2) = ''latency'' \<and>
   \<not> has_target demo_request ''latency'' \<and>
   r_variance (results (realizationReport demo_response) ! 2) = None \<and>
   r_targetValue (results (realizationReport demo_response) ! 2) = PyNone \<and>
   r_unit (results (realizationReport demo_response) ! 2) = PyNone \<and>
   status (renewalAlert demo_response) = ''risk'' \<and>
   (\<exists>r\<in>set (results (realizationReport demo_response)).
      has_target demo_request (r_kpiId r) \<and> below_target exact_arith r)"
proof -
  let ?rs = "results (realizationReport demo_response)"
  have mem: "?rs ! 2 \<in> set ?rs"
    by (simp add: example_defs)
  have id: "r_kpiId (?rs ! 2) = ''latency''"
    by (simp add: example_defs)
  have no: "\<not> has_target demo_request ''latency''"
    by (simp add: has_target_def kpiTargets_def commit_get_def example_defs)
  then have no': "\<not> has_target demo_request (r_kpiId (?rs ! 2))"
    unfolding id .
  have risk: "status (renewalAlert demo_response) = ''risk''"
    by (simp add: example_defs)
  from unmatched_kpi_has_no_target_fields [OF demo_run] mem no' risk
  have "r_variance (?rs ! 2) = None \<and> r_targetValue (?rs ! 2) = PyNone \<and>
        r_unit (?rs ! 2) = PyNone"
    and "\<exists>r\<in>set ?rs. has_target demo_request (r_kpiId r) \<and> below_target exact_arith r"
    by blast+
  with demo_run mem id no risk show ?thesis by blast
qed

text \<open>
  C4. Two calls return the same results and the same \<open>generatedAt\<close> as soon as their
  requests carry the same telemetry and the same \<open>kpiTargets\<close>, whenever the calls are
  made and whatever else the two value commits hold; if one call returns, so does the
  other. Two calls with identical requests are the case \<open>d1 = d2\<close>. So \<open>generatedAt\<close>
  is not the time of the call.
\<close>

theorem repeated_calls_agree:
  assumes "telemetryData d1 = telemetryData d2"
    and "map_of (valueCommit d1) ''kpiTargets'' = map_of (valueCommit d2) ''kpiTargets''"
    and "process_realization_at t1 ops d1 = Inr rep1"
  shows "\<exists>rep2. process_realization_at t2 ops d2 = Inr rep2 \<and>
           results (realizationReport rep2) = results (realizationReport rep1) \<and>
           generatedAt (realizationReport rep2) = generatedAt (realizationReport rep1)"
proof -
  from assms(3) have run: "process_realization ops d1 = Inr rep1"
    by (simp add: process_realization_at_def)
  then obtain ts T fl where
    it: "py_iter (commit_get (valueCommit d1) ''kpiTargets'' (PyList [])) = Inr ts"
    and bt: "build_targets ts Map.empty = Inr T"
    and loop: "results_loop ops T (group_loop (telemetryData d1) []) [] False
                 = Inr (results (realizationReport rep1), fl)"
    and gen: "generatedAt (realizationReport rep1) = ''2025-11-17T00:00:00Z''"
    by (rule process_realization_cases)
  have same: "commit_get (valueCommit d2) ''kpiTargets'' (PyList [])
      = commit_get (valueCommit d1) ''kpiTargets'' (PyList [])"
    by (simp add: commit_get_def assms(2))
  from it bt loop show ?thesis
    by (simp add: process_realization_at_def process_realization_def realization_body_def
        same assms(1) [symmetric] gen)
qed

text \<open>The second request differs from the first in the commit's \<open>id\<close> and in the order
  of its keys, and is sent eighteen months later.\<close>

theorem repeated_calls_agree_witness:
  "telemetryData demo_request = telemetryData later_request \<and>
   map_of (valueCommit demo_request) ''kpiTargets''
     = map_of (valueCommit later_request) ''kpiTargets'' \<and>
   demo_request \<noteq> later_request \<and>
   process_realization_at ''2026-01-01T00:00:00Z'' exact_arith demo_request
     = Inr demo_response \<and>
   (\<exists>rep2. process_realization_at ''2027-06-30T12:00:00Z'' exact_arith later_request = Inr rep2 \<and>
      results (realizationReport rep2) = results (realizationReport demo_response) \<and>
      generatedAt (realizationReport rep2) = generatedAt (realizationReport demo_response))"
proof -
  have tel: "telemetryData demo_request = telemetryData later_request"
    by (simp add: later_request_def)
  have tgt: "map_of (valueCommit demo_request) ''kpiTargets''
      = map_of (valueCommit later_request) ''kpiTargets''"
    by (simp add: later_request_def demo_request_def)
  have diff: "demo_request \<noteq> later_request"
    by (simp add: later_request_def demo_request_def)
  have run: "process_realization_at ''2026-01-01T00:00:00Z'' exact_arith demo_request
      = Inr demo_response"
    by (simp add: process_realization_at_def demo_run)
  from repeated_calls_agree [OF tel tgt run, of "''2027-06-30T12:00:00Z''"] tel tgt diff run
  show ?thesis by blast
qed

text \<open>The claim as the specification words it has \<open>generatedAt\<close> follow the clock. Two
  calls at different times return the same \<open>generatedAt\<close>, which is neither time.\<close>

theorem generatedAt_ignores_call_time:
  "process_realization_at ''2026-01-01T00:00:00Z'' exact_arith demo_request
     = Inr demo_response \<and>
   process_realization_at ''2027-06-30T12:00:00Z'' exact_arith demo_request
     = Inr demo_response \<and>
   generatedAt (realizationReport demo_response) \<noteq> ''2026-01-01T00:00:00Z'' \<and>
   generatedAt (realizationReport demo_response) \<noteq> ''2027-06-30T12:00:00Z''"
proof -
  have "generatedAt (realizationReport demo_response) = ''2025-11-17T00:00:00Z''"
    by (simp add: example_defs)
  then show ?thesis
    by (simp add: process_realization_at_def demo_run)
qed

text \<open>
  C5. Whenever the handler returns, every result's \<open>kpiId\<close> is the \<open>kpiId\<close> of some
  telemetry sample. A KPI without any sample has no result row, whether or not it has a
  target.
\<close>

theorem result_kpis_are_observed:
  assumes "process_realization ops d = Inr rep"
  shows "(\<forall>r\<in>set (results (realizationReport rep)). r_kpiId r \<in> kpiId ` set (telemetryData d)) \<and>
         (\<forall>k. has_target d k \<and> k \<notin> kpiId ` set (telemetryData d) \<longrightarrow>
            k \<notin> r_kpiId ` set (results (realizationReport rep)))"
proof -
  have "set (map r_kpiId (results (realizationReport rep))) = set (map kpiId (telemetryData d))"
    by (simp only: result_keys_first_seen [OF assms] set_first_seen)
  then have "r_kpiId ` set (results (realizationReport rep)) = kpiId ` set (telemetryData d)"
    by simp
  then show ?thesis by blast
qed

theorem result_kpis_are_observed_witness:
  "process_realization exact_arith demo_request = Inr demo_response \<and>
   results (realizationReport demo_response) ! 0
     \<in> set (results (realizationReport demo_response)) \<and>
   r_kpiId (results (realizationReport demo_response) ! 0)
     \<in> kpiId ` set (telemetryData demo_request) \<and>
   has_target demo_request ''adoption'' \<and>
   ''adoption'' \<notin> kpiId ` set (telemetryData demo_request) \<and>
   ''adoption'' \<notin> r_kpiId ` set (results (realizationReport demo_response))"
proof -
  let ?rs = "results (realizationReport demo_response)"
  have mem: "?rs ! 0 \<in> set ?rs"
    by (simp add: example_defs)
  have tgt: "has_target demo_request ''adoption''"
    by (simp add: has_target_def kpiTargets_def commit_get_def example_defs)
  have unseen: "''adoption'' \<notin> kpiId ` set (telemetryData demo_request)"
    by (simp add: example_defs)
  from result_kpis_are_observed [OF demo_run] mem tgt unseen
  have "r_kpiId (?rs ! 0) \<in> kpiId ` set (telemetryData demo_request)"
    and "''adoption'' \<notin> r_kpiId ` set ?rs"
    by blast+
  with demo_run mem tgt unseen show ?thesis by blast
qed

text \<open>
  C6. The handler answers every well-typed request, so the branch that turns an
  exception into HTTP 500 is not taken there. For every request, well-typed or not,
  each group built from the telemetry holds at least one value, its mean is computed
  without error, and the handler never fails with a division by zero.
\<close>

theorem handler_total_on_well_typed_input:
  "(\<forall>g\<in>set (group_loop (telemetryData d) []). snd g \<noteq> [] \<and> (\<exists>a. mean ops (snd g) = Inr a)) \<and>
   process_realization ops d \<noteq> Inl (HTTPException 500 ZeroDivisionError) \<and>
   (wt_request d \<longrightarrow> (\<exists>rep. process_realization ops d = Inr rep))"
proof -
  have "\<forall>g\<in>set (group_loop (telemetryData d) []). snd g \<noteq> [] \<and> (\<exists>a. mean ops (snd g) = Inr a)"
    using group_nonempty by (auto simp: mean_def)
  moreover have "process_realization ops d \<noteq> Inl (HTTPException 500 ZeroDivisionError)"
    using body_no_zero_division [of ops d]
    by (auto simp: process_realization_def split: sum.splits)
  ultimately show ?thesis
    using wt_request_total by blast
qed

theorem handler_total_on_well_typed_input_witness:
  "wt_request demo_request \<and>
   (\<exists>rep. process_realization exact_arith demo_request = Inr rep) \<and>
   (''time-saved'', [10, 20]) \<in> set (group_loop (telemetryData demo_request) []) \<and>
   (\<exists>a. mean exact_arith [10, 20] = Inr a)"
proof -
  have wt: "wt_request demo_request"
    by (simp add: wt_request_def example_defs)
  have g: "(''time-saved'', [10, 20]) \<in> set (group_loop (telemetryData demo_request) [])"
    by (simp add: example_defs)
  from handler_total_on_well_typed_input [of demo_request exact_arith] wt g
  have "\<exists>rep. process_realization exact_arith demo_request = Inr rep"
    and "\<exists>a. mean exact_arith (snd (''time-saved'', [10, 20 :: real])) = Inr a"
    by blast+
  with wt g show ?thesis by simp
qed

text \<open>
  C7. Whenever the handler returns, the \<open>kpiId\<close>s of the results, in order, are the
  distinct \<open>kpiId\<close>s of the telemetry in the order of their first occurrence: one
  result per observed KPI, none repeated, none missing.
\<close>

theorem results_in_first_observed_order:
  assumes "process_realization ops d = Inr rep"
  shows "map r_kpiId (results (realizationReport rep))
           = first_seen (map kpiId (telemetryData d)) \<and>
         first_seen (map kpiId (telemetryData d))
           = rev (remdups (rev (map kpiId (telemetryData d)))) \<and>
         distinct (map r_kpiId (results (realizationReport rep))) \<and>
         r_kpiId ` set (results (realizationReport rep)) = kpiId ` set (telemetryData d)"
proof -
  have keys: "map r_kpiId (results (realizationReport rep))
      = first_seen (map kpiId (telemetryData d))"
    by (rule result_keys_first_seen [OF assms])
  have "set (map r_kpiId (results (realizationReport rep))) = set (map kpiId (telemetryData d))"
    by (simp only: keys set_first_seen)
  then have "r_kpiId ` set (results (realizationReport rep)) = kpiId ` set (telemetryData d)"
    by simp
  moreover have "distinct (map r_kpiId (results (realizationReport rep)))"
    by (simp only: keys distinct_first_seen)
  ultimately show ?thesis
    using keys first_seen_remdups by blast
qed

theorem results_in_first_observed_order_witness:
  "process_realization exact_arith demo_request = Inr demo_response \<and>
   map kpiId (telemetryData demo_request)
     = [''time-saved'', ''revenue'', ''time-saved'', ''latency'', ''revenue''] \<and>
   map r_kpiId (results (realizationReport demo_response))
     = [''time-saved'', ''revenue'', ''latency'']"
proof -
  have ids: "map kpiId (telemetryData demo_request)
      = [''time-saved'', ''revenue'', ''time-saved'', ''latency'', ''revenue'']"
    by (simp add: example_defs)
  from results_in_first_observed_order [OF demo_run]
  have "map r_kpiId (results (realizationReport demo_response))
      = first_seen (map kpiId (telemetryData demo_request))"
    by blast
  then have "map r_kpiId (results (realizationReport demo_response))
      = [''time-saved'', ''revenue'', ''latency'']"
    by (simp add: ids)
  with demo_run ids show ?thesis by blast
qed

text \<open>
  C8. With no telemetry sample, a well-typed request is answered, and every answer has
  an empty result sequence and an \<open>ok\<close> alert without a message, whatever targets the
  value commit holds.
\<close>

theorem empty_telemetry_gives_empty_ok:
  assumes "telemetryData d = []"
  shows "(wt_request d \<longrightarrow> (\<exists>rep. process_realization ops d = Inr rep)) \<and>
         (\<forall>rep. process_realization ops d = Inr rep \<longrightarrow>
            results (realizationReport rep) = [] \<and>
            status (renewalAlert rep) = ''ok'' \<and>
            message (renewalAlert rep) = None)"
proof -
  have "results (realizationReport rep) = [] \<and> status (renewalAlert rep) = ''ok'' \<and>
      message (renewalAlert rep) = None"
    if "process_realization ops d = Inr rep" for rep
  proof -
    from that obtain T fl where
      loop: "results_loop ops T (group_loop (telemetryData d) []) [] False
               = Inr (results (realizationReport rep), fl)"
      and alert: "renewalAlert rep = make_alert fl"
      by (rule process_realization_cases)
    from loop assms have "results (realizationReport rep) = []" "\<not> fl"
      by simp_all
    then show ?thesis
      by (simp add: alert make_alert_def)
  qed
  with wt_request_total show ?thesis by blast
qed

theorem empty_telemetry_gives_empty_ok_witness:
  "telemetryData empty_request = [] \<and>
   wt_request empty_request \<and>
   process_realization exact_arith empty_request = Inr empty_response \<and>
   length (kpiTargets empty_request) = 4 \<and>
   results (realizationReport empty_response) = [] \<and>
   status (renewalAlert empty_response) = ''ok'' \<and>
   message (renewalAlert empty_response) = None"
proof -
  have tel: "telemetryData empty_request = []"
    by (simp add: example_defs)
  have wt: "wt_request empty_request"
    by (simp add: wt_request_def example_defs)
  have n: "length (kpiTargets empty_request) = 4"
    by (simp add: kpiTargets_def commit_get_def example_defs)
  from empty_telemetry_gives_empty_ok [OF tel] empty_run
  have "results (realizationReport empty_response) = [] \<and>
        status (renewalAlert empty_response) = ''ok'' \<and>
        message (renewalAlert empty_response) = None"
    by blast
  with tel wt n empty_run show ?thesis by blast
qed

text \<open>
  C9. Whenever the handler returns, at whatever time it was called, the report's
  \<open>id\<close> is the string \<open>auto-generated\<close> and its \<open>generatedAt\<close> is the string
  \<open>2025-11-17T00:00:00Z\<close>.
\<close>

theorem report_id_and_time_are_constants:
  assumes "process_realization_at now ops d = Inr rep"
  shows "report_id (realizationReport rep) = ''auto-generated'' \<and>
         generatedAt (realizationReport rep) = ''2025-11-17T00:00:00Z''"
proof -
  from assms have "process_realization ops d = Inr rep"
    by (simp add: process_realization_at_def)
  then show ?thesis
    by (rule process_realization_cases) simp
qed

theorem report_id_and_time_are_constants_witness:
  "process_realization_at ''2026-03-01T09:30:00Z'' exact_arith demo_request = Inr demo_response \<and>
   report_id (realizationReport demo_response) = ''auto-generated'' \<and>
   generatedAt (realizationReport demo_response) = ''2025-11-17T00:00:00Z''"
proof -
  have run: "process_realization_at ''2026-03-01T09:30:00Z'' exact_arith demo_request = Inr demo_response"
    by (simp add: process_realization_at_def demo_run)
  from report_id_and_time_are_constants [OF run] run show ?thesis by blast
qed

text \<open>
  C10. When several entries of \<open>kpiTargets\<close> carry the same \<open>kpiId\<close>, the last of them
  is the one a result of that KPI is computed from: the result's \<open>targetValue\<close> and
  \<open>unit\<close> are read from that entry, and the variance is taken against that target.
\<close>

theorem last_duplicate_target_wins:
  assumes "process_realization ops d = Inr rep"
    and "r \<in> set (results (realizationReport rep))"
    and "kpiTargets d = pre @ t # post"
    and "py_getitem t ''kpiId'' = Inr (PyStr (r_kpiId r))"
    and "\<forall>u\<in>set post. py_getitem u ''kpiId'' \<noteq> Inr (PyStr (r_kpiId r))"
  shows "py_get t ''targetValue'' = Inr (r_targetValue r) \<and>
         py_get t ''unit'' = Inr (r_unit r) \<and>
         (case r_variance r of
            None \<Rightarrow> r_targetValue r = PyNone
          | Some v \<Rightarrow> float_sub ops (r_actualValue r) (r_targetValue r) = Inr v)"
proof -
  from assms(1,2) obtain T g f0 f1 where
    bt: "build_targets (kpiTargets d) Map.empty = Inr T"
    and step: "kpi_step ops T g f0 = Inr (r, f1)"
    by (rule result_lookup)
  from bt have "build_targets (pre @ t # post) Map.empty = Inr T"
    by (simp only: assms(3))
  from build_targets_last [OF this assms(4,5)] have "T (PyStr (r_kpiId r)) = Some t" .
  then have "targets_get T (fst g) = t"
    by (simp add: targets_get_def kpi_step_kpiId [OF step, symmetric])
  with kpi_step_target [OF step] have "py_get t ''targetValue'' = Inr (r_targetValue r)"
    "py_get t ''unit'' = Inr (r_unit r)"
    by simp_all
  moreover from kpi_step_variance [OF step] have "case r_variance r of
      None \<Rightarrow> r_targetValue r = PyNone
    | Some v \<Rightarrow> float_sub ops (r_actualValue r) (r_targetValue r) = Inr v"
    by (cases "r_variance r") simp_all
  ultimately show ?thesis by blast
qed

theorem last_duplicate_target_wins_witness:
  "process_realization exact_arith demo_request = Inr demo_response \<and>
   results (realizationReport demo_response) ! 0
     \<in> set (results (realizationReport demo_response)) \<and>
   r_kpiId (results (realizationReport demo_response) ! 0) = ''time-saved'' \<and>
   kpiTargets demo_request
     = [target_entry ''revenue'' (PyInt 50000) ''usd'',
        target_entry ''time-saved'' (PyFloat 25) ''hours'']
       @ target_entry ''time-saved'' (PyInt 15) ''percent''
       # [target_entry ''adoption'' (PyFloat 80) ''percent''] \<and>
   r_targetValue (results (realizationReport demo_response) ! 0) = PyInt 15 \<and>
   r_unit (results (realizationReport demo_response) ! 0) = PyStr ''percent'' \<and>
   r_variance (results (realizationReport demo_response) ! 0) = Some 0"
proof -
  let ?rs = "results (realizationReport demo_response)"
  let ?t = "target_entry ''time-saved'' (PyInt 15) ''percent''"
  let ?post = "[target_entry ''adoption'' (PyFloat 80) ''percent'']"
  have mem: "?rs ! 0 \<in> set ?rs"
    by (simp add: example_defs)
  have id: "r_kpiId (?rs ! 0) = ''time-saved''"
    by (simp add: example_defs)
  have split: "kpiTargets demo_request
      = [target_entry ''revenue'' (PyInt 50000) ''usd'',
         target_entry ''time-saved'' (PyFloat 25) ''hours''] @ ?t # ?post"
    by (simp add: kpiTargets_def commit_get_def demo_request_def)
  have key: "py_getitem ?t ''kpiId'' = Inr (PyStr (r_kpiId (?rs ! 0)))"
    unfolding id by (simp add: target_entry_def)
  have later: "\<forall>u\<in>set ?post. py_getitem u ''kpiId'' \<noteq> Inr (PyStr (r_kpiId (?rs ! 0)))"
    unfolding id by (simp add: target_entry_def)
  from last_duplicate_target_wins [OF demo_run mem split key later]
  have "py_get ?t ''targetValue'' = Inr (r_targetValue (?rs ! 0))"
    and "py_get ?t ''unit'' = Inr (r_unit (?rs ! 0))"
    by blast+
  then have "r_targetValue (?rs ! 0) = PyInt 15" "r_unit (?rs ! 0) = PyStr ''percent''"
    by (simp_all add: target_entry_def)
  moreover have "r_variance (?rs ! 0) = Some 0"
    by (simp add: example_defs)
  ultimately show ?thesis
    using demo_run mem id split by blast
qed

end
